theory Spec2Isabelle
  imports Complex_Main "HOL-Library.Sublist"
begin

section \<open>The input form of app.py\<close>

text \<open>
  Python strings are compared only for equality in app.py, so a string is modelled by
  its UTF-8 bytes. The sign U+2264 of the three outdoor select boxes is the byte
  sequence E2 89 A4.
\<close>

definition le_sign :: string where
  "le_sign = [CHR 0xE2, CHR 0x89, CHR 0xA4]"

text \<open>The option lists handed to \<^verbatim>\<open>st.selectbox\<close> (app.py, lines 20 to 35).\<close>

definition occupancy_options :: "string list" where
  "occupancy_options = [''One resident'', ''More than one residents'']"

definition activity_options :: "string list" where
  "activity_options =
     [''Sleeping'', ''Sitting'', ''Watching TV'', ''Working'',
      ''Having Dinner'', ''Cleaning'', ''Dressing'', ''Cooking'', ''Smoking'']"

definition window_options :: "string list" where
  "window_options = [''Closed'', ''Open'']"

definition ac_options :: "string list" where
  "ac_options = [''Off'', ''On'']"

definition ach_options :: "string list" where
  "ach_options = [''Meet Thai regulation'', ''Not meet Thai regulation'']"

definition airpurifier_options :: "string list" where
  "airpurifier_options = [''Off'', ''On'']"

definition outdoor_temp_options :: "string list" where
  "outdoor_temp_options = [le_sign @ ''29'', ''>29'']"

definition outdoor_pm_options :: "string list" where
  "outdoor_pm_options = [le_sign @ ''25'', ''>25'']"

definition outdoor_rh_options :: "string list" where
  "outdoor_rh_options = [le_sign @ ''70'', ''>70'']"

text \<open>
  The nine module-level variables that the select boxes assign. The functions below are
  written over the record scheme, so they also read the larger record of all globals.
\<close>

record form =
  occupancy_label :: string
  activity :: string
  window :: string
  ac :: string
  ach :: string
  airpurifier :: string
  outdoor_temp :: string
  outdoor_pm :: string
  outdoor_rh :: string

text \<open>The globals of the script: the form fields and the state of the submit button.\<close>

record script_globals = form +
  submitted :: bool

text \<open>A select box returns one of its options: the forms the script can really see.\<close>

definition valid_form :: "'a form_scheme \<Rightarrow> bool" where
  "valid_form g \<longleftrightarrow>
     occupancy_label g \<in> set occupancy_options \<and>
     activity g \<in> set activity_options \<and>
     window g \<in> set window_options \<and>
     ac g \<in> set ac_options \<and>
     ach g \<in> set ach_options \<and>
     airpurifier g \<in> set airpurifier_options \<and>
     outdoor_temp g \<in> set outdoor_temp_options \<and>
     outdoor_pm g \<in> set outdoor_pm_options \<and>
     outdoor_rh g \<in> set outdoor_rh_options"

section \<open>Feature encoding\<close>

datatype py_error = KeyError | IndexError | LoadError | PredictError | NameError

text \<open>Line 21: \<^verbatim>\<open>occupancy = 1 if occupancy_label == "One resident" else 2\<close>.\<close>

definition occupancy :: "'a form_scheme \<Rightarrow> int" where
  "occupancy g = (if occupancy_label g = ''One resident'' then 1 else 2)"

definition binary :: "'v \<Rightarrow> 'v \<Rightarrow> int" where
  "binary v true_value = (if v = true_value then 1 else 0)"

text \<open>The dictionary of lines 44 to 54, in the order it is written.\<close>

definition activity_pm25_items :: "(string \<times> int) list" where
  "activity_pm25_items =
     [(''Sleeping'', 1), (''Sitting'', 1), (''Watching TV'', 1), (''Working'', 1),
      (''Having Dinner'', 1), (''Dressing'', 1), (''Cleaning'', 1), (''Cooking'', 2),
      (''Smoking'', 2)]"

definition activity_pm25_map :: "string \<rightharpoonup> int" where
  "activity_pm25_map = map_of activity_pm25_items"

text \<open>
  Line 55, \<^verbatim>\<open>activity_pm25 = activity_pm25_map[activity]\<close>: subscripting a
  dictionary with a key it does not hold raises KeyError.
\<close>

definition activity_pm25 :: "'a form_scheme \<Rightarrow> py_error + int" where
  "activity_pm25 g =
     (case activity_pm25_map (activity g) of None \<Rightarrow> Inl KeyError | Some v \<Rightarrow> Inr v)"

text \<open>
  The four feature functions return a matrix of one row, as the classifiers expect.
  \<^verbatim>\<open>get_features_pm25\<close> reads the global \<^verbatim>\<open>activity_pm25\<close>, which line 55 has
  assigned before; it is the second argument here.
\<close>

definition get_features_temp :: "'a form_scheme \<Rightarrow> int list list" where
  "get_features_temp g =
     [[binary (outdoor_temp g) (le_sign @ ''29''),
       binary (window g) ''Open'',
       binary (ac g) ''Off'']]"

definition get_features_rh :: "'a form_scheme \<Rightarrow> int list list" where
  "get_features_rh g =
     [[binary (outdoor_rh g) ''>70'',
       binary (window g) ''Open'',
       binary (ac g) ''On'']]"

definition get_features_co2 :: "'a form_scheme \<Rightarrow> int list list" where
  "get_features_co2 g =
     [[occupancy g,
       binary (window g) ''Open'',
       binary (ach g) ''Meet Thai regulation'']]"

definition get_features_pm25 :: "'a form_scheme \<Rightarrow> int \<Rightarrow> int list list" where
  "get_features_pm25 g act =
     [[binary (outdoor_pm g) ''>25'',
       binary (window g) ''Open'',
       act,
       binary (airpurifier g) ''On'']]"

text \<open>
  The encoder as the script runs it: line 55 first, which may raise, then the four
  feature matrices in the order temperature, humidity, CO2, PM2.5.
\<close>

definition feature_vectors ::
  "'a form_scheme \<Rightarrow> py_error + (int list list \<times> int list list \<times> int list list \<times> int list list)"
where
  "feature_vectors g =
     (case activity_pm25 g of
        Inl e \<Rightarrow> Inl e
      | Inr act \<Rightarrow>
          Inr (get_features_temp g, get_features_rh g, get_features_co2 g,
               get_features_pm25 g act))"

section \<open>Prediction\<close>

text \<open>
  A loaded model artifact: the two methods that \<^verbatim>\<open>predict\<close> calls. Either may raise;
  \<^verbatim>\<open>model.predict\<close> returns an array of labels, \<^verbatim>\<open>model.predict_proba\<close> an array
  of rows of class probabilities. Labels and probabilities are only passed through by
  app.py, so their types are parameters.
\<close>

record ('l, 'p) classifier =
  model_predict :: "int list list \<Rightarrow> py_error + 'l list"
  model_predict_proba :: "int list list \<Rightarrow> py_error + 'p list list"

text \<open>
  What the page shows below the form: the sub-header, and one line per call of
  \<^verbatim>\<open>show_result\<close>, which is determined by the name, the label and the probability.
\<close>

datatype ('l, 'p) element = Subheader string | Result string 'l 'p

text \<open>
  The state that the run block acts on: the paths handed to \<^verbatim>\<open>joblib.load\<close> so far,
  in order, and the elements written to the page so far.
\<close>

record ('l, 'p) world =
  loaded :: "string list"
  page :: "('l, 'p) element list"

type_synonym ('a, 'l, 'p) run = "('l, 'p) world \<Rightarrow> (py_error + 'a) \<times> ('l, 'p) world"

definition ret :: "'a \<Rightarrow> ('a, 'l, 'p) run" where
  "ret a w = (Inr a, w)"

definition lift :: "py_error + 'a \<Rightarrow> ('a, 'l, 'p) run" where
  "lift r w = (r, w)"

text \<open>Sequencing of statements: an exception ends the run with the state reached.\<close>

definition then_do :: "('a, 'l, 'p) run \<Rightarrow> ('a \<Rightarrow> ('b, 'l, 'p) run) \<Rightarrow> ('b, 'l, 'p) run" where
  "then_do m f w = (case m w of (Inl e, w') \<Rightarrow> (Inl e, w') | (Inr a, w') \<Rightarrow> f a w')"

text \<open>Subscripting with a literal index that is not negative: IndexError out of range.\<close>

definition subscript :: "'a list \<Rightarrow> nat \<Rightarrow> py_error + 'a" where
  "subscript xs i = (if i < length xs then Inr (xs ! i) else Inl IndexError)"

text \<open>
  \<^verbatim>\<open>joblib.load\<close>: the first argument says what loading each path gives, an error
  for an artifact that is missing or corrupt.
\<close>

definition joblib_load ::
  "(string \<Rightarrow> py_error + ('l, 'p) classifier) \<Rightarrow> string \<Rightarrow> (('l, 'p) classifier, 'l, 'p) run"
where
  "joblib_load files path w = (files path, w\<lparr>loaded := loaded w @ [path]\<rparr>)"

text \<open>Lines 88 to 92.\<close>

definition predict ::
  "(string \<Rightarrow> py_error + ('l, 'p) classifier) \<Rightarrow> string \<Rightarrow> int list list \<Rightarrow> ('l \<times> 'p, 'l, 'p) run"
where
  "predict files model_path features =
     then_do (joblib_load files model_path) (\<lambda>model.
     then_do (lift (model_predict model features)) (\<lambda>labels.
     then_do (lift (subscript labels 0)) (\<lambda>prediction.
     then_do (lift (model_predict_proba model features)) (\<lambda>probas.
     then_do (lift (subscript probas 0)) (\<lambda>row.
     then_do (lift (subscript row 1)) (\<lambda>exceed_prob.
     ret (prediction, exceed_prob)))))))"

definition st_subheader :: "string \<Rightarrow> (unit, 'l, 'p) run" where
  "st_subheader body w = (Inr (), w\<lparr>page := page w @ [Subheader body]\<rparr>)"

text \<open>Lines 94 to 102; the markup of the line is not modelled.\<close>

definition show_result :: "string \<Rightarrow> 'l \<Rightarrow> 'p \<Rightarrow> (unit, 'l, 'p) run" where
  "show_result name prediction exceed_prob w =
     (Inr (), w\<lparr>page := page w @ [Result name prediction exceed_prob]\<rparr>)"

definition results_title :: string where
  "results_title = [CHR 0xF0, CHR 0x9F, CHR 0x94, CHR 0x8D] @ '' Prediction Results''"

definition temp_name :: string where
  "temp_name =
     [CHR 0xF0, CHR 0x9F, CHR 0x8C, CHR 0xA1, CHR 0xEF, CHR 0xB8, CHR 0x8F] @ '' Temperature''"

definition rh_name :: string where
  "rh_name = [CHR 0xF0, CHR 0x9F, CHR 0x92, CHR 0xA7] @ '' Relative Humidity''"

definition pm25_name :: string where
  "pm25_name = [CHR 0xF0, CHR 0x9F, CHR 0xAB, CHR 0x81] @ '' PM2.5''"

definition co2_name :: string where
  "co2_name =
     [CHR 0xF0, CHR 0x9F, CHR 0x98, CHR 0xAE, CHR 0xE2, CHR 0x80, CHR 0x8D,
      CHR 0xF0, CHR 0x9F, CHR 0x92, CHR 0xA8] @ '' CO2''"

text \<open>
  The body of \<^verbatim>\<open>if submitted:\<close>, lines 106 to 120. The second argument is the
  global \<^verbatim>\<open>activity_pm25\<close>. No statement of the block is inside a \<^verbatim>\<open>try\<close>.
  The two columns only place the output on the page and are left out.
\<close>

definition run_predictions ::
  "(string \<Rightarrow> py_error + ('l, 'p) classifier) \<Rightarrow> 'a form_scheme \<Rightarrow> int \<Rightarrow> (unit, 'l, 'p) run"
where
  "run_predictions files g act =
     then_do (st_subheader results_title) (\<lambda>_.
     then_do (predict files ''model_Temp.pkl'' (get_features_temp g)) (\<lambda>(temp_pred, temp_prob).
     then_do (predict files ''model_RH.pkl'' (get_features_rh g)) (\<lambda>(rh_pred, rh_prob).
     then_do (predict files ''model_PM25.pkl'' (get_features_pm25 g act)) (\<lambda>(pm25_pred, pm25_prob).
     then_do (predict files ''model_CO2.pkl'' (get_features_co2 g)) (\<lambda>(co2_pred, co2_prob).
     then_do (show_result temp_name temp_pred temp_prob) (\<lambda>_.
     then_do (show_result rh_name rh_pred rh_prob) (\<lambda>_.
     then_do (show_result pm25_name pm25_pred pm25_prob) (\<lambda>_.
     show_result co2_name co2_pred co2_prob))))))))"

text \<open>
  The script from line 55 on: the dictionary lookup runs on every execution, the run
  block only after the form was submitted.
\<close>

definition app ::
  "(string \<Rightarrow> py_error + ('l, 'p) classifier) \<Rightarrow> 'a script_globals_scheme \<Rightarrow> (unit, 'l, 'p) run"
where
  "app files g =
     then_do (lift (activity_pm25 g)) (\<lambda>act.
     if submitted g then run_predictions files g act else ret ())"

text \<open>The artifacts in the order in which the run block loads them.\<close>

definition model_paths :: "string list" where
  "model_paths = [''model_Temp.pkl'', ''model_RH.pkl'', ''model_PM25.pkl'', ''model_CO2.pkl'']"

section \<open>The encoder as statements of the script\<close>

text \<open>
  The feature functions of app.py take no argument: they read module variables, and like
  any statement of the script they run in a state that also holds the submit flag, the
  model files and the page. Here they are written once more as steps on that whole state,
  so that what they read and what they leave behind can be stated.

  The state: the variables assigned by the form, the variable \<^verbatim>\<open>activity_pm25\<close>
  (unassigned until line 55 has run), what loading each path gives, and the output so far.
\<close>

record ('l, 'p) interp =
  vars :: script_globals
  activity_pm25_var :: "int option"
  disk :: "string \<Rightarrow> py_error + ('l, 'p) classifier"
  out :: "('l, 'p) world"

type_synonym ('a, 'l, 'p) step = "('l, 'p) interp \<Rightarrow> (py_error + 'a) \<times> ('l, 'p) interp"

text \<open>Line 55: look the activity up and assign the result, or raise KeyError.\<close>

definition activity_pm25_assign :: "(unit, 'l, 'p) step" where
  "activity_pm25_assign s =
     (case activity_pm25_map (activity (vars s)) of
        None \<Rightarrow> (Inl KeyError, s)
      | Some v \<Rightarrow> (Inr (), s\<lparr>activity_pm25_var := Some v\<rparr>))"

text \<open>Lines 58 to 85. Reading a module variable that was never assigned raises NameError.\<close>

definition get_features_temp_call :: "(int list list, 'l, 'p) step" where
  "get_features_temp_call s =
     (Inr [[binary (outdoor_temp (vars s)) (le_sign @ ''29''),
            binary (window (vars s)) ''Open'',
            binary (ac (vars s)) ''Off'']], s)"

definition get_features_rh_call :: "(int list list, 'l, 'p) step" where
  "get_features_rh_call s =
     (Inr [[binary (outdoor_rh (vars s)) ''>70'',
            binary (window (vars s)) ''Open'',
            binary (ac (vars s)) ''On'']], s)"

definition get_features_co2_call :: "(int list list, 'l, 'p) step" where
  "get_features_co2_call s =
     (Inr [[occupancy (vars s),
            binary (window (vars s)) ''Open'',
            binary (ach (vars s)) ''Meet Thai regulation'']], s)"

definition get_features_pm25_call :: "(int list list, 'l, 'p) step" where
  "get_features_pm25_call s =
     (case activity_pm25_var s of
        None \<Rightarrow> (Inl NameError, s)
      | Some act \<Rightarrow>
          (Inr [[binary (outdoor_pm (vars s)) ''>25'',
                 binary (window (vars s)) ''Open'',
                 act,
                 binary (airpurifier (vars s)) ''On'']], s))"

text \<open>
  One run of the encoder: line 55, then the four calls, each in the state the one before
  left, the first exception ending the run.
\<close>

definition encode_run ::
  "(int list list \<times> int list list \<times> int list list \<times> int list list, 'l, 'p) step"
where
  "encode_run s0 =
     (case activity_pm25_assign s0 of
        (Inl e, s1) \<Rightarrow> (Inl e, s1)
      | (Inr u, s1) \<Rightarrow>
     (case get_features_temp_call s1 of
        (Inl e, s2) \<Rightarrow> (Inl e, s2)
      | (Inr t, s2) \<Rightarrow>
     (case get_features_rh_call s2 of
        (Inl e, s3) \<Rightarrow> (Inl e, s3)
      | (Inr r, s3) \<Rightarrow>
     (case get_features_co2_call s3 of
        (Inl e, s4) \<Rightarrow> (Inl e, s4)
      | (Inr c, s4) \<Rightarrow>
     (case get_features_pm25_call s4 of
        (Inl e, s5) \<Rightarrow> (Inl e, s5)
      | (Inr p, s5) \<Rightarrow> (Inr (t, r, c, p), s5))))))"

text \<open>The nine selections held by a state of the globals, and nothing else of it.\<close>

definition form_state :: "'a form_scheme \<Rightarrow> form" where
  "form_state g =
     \<lparr>occupancy_label = occupancy_label g, activity = activity g, window = window g,
      ac = ac g, ach = ach g, airpurifier = airpurifier g, outdoor_temp = outdoor_temp g,
      outdoor_pm = outdoor_pm g, outdoor_rh = outdoor_rh g\<rparr>"

section \<open>Concrete inputs\<close>

text \<open>The form of the first scenario of the specification.\<close>

definition scenario_form :: form where
  "scenario_form =
     \<lparr>occupancy_label = ''One resident'', activity = ''Sleeping'', window = ''Closed'',
      ac = ''On'', ach = ''Meet Thai regulation'', airpurifier = ''Off'',
      outdoor_temp = ''>29'', outdoor_pm = le_sign @ ''25'', outdoor_rh = le_sign @ ''70''\<rparr>"

text \<open>
  An artifact that labels every input as exceeding although it gives the exceeding
  class the probability 1/5, and a file system on which only the temperature artifact
  is missing.
\<close>

definition sure_model :: "(bool, real) classifier" where
  "sure_model =
     \<lparr>model_predict = (\<lambda>x. Inr [True]), model_predict_proba = (\<lambda>x. Inr [[4 / 5, 1 / 5]])\<rparr>"

definition temp_missing :: "string \<Rightarrow> py_error + (bool, real) classifier" where
  "temp_missing path = (if path = ''model_Temp.pkl'' then Inl LoadError else Inr sure_model)"

definition all_present :: "string \<Rightarrow> py_error + (bool, real) classifier" where
  "all_present path = Inr sure_model"

definition fresh :: "(bool, real) world" where
  "fresh = \<lparr>loaded = [], page = []\<rparr>"

definition submitted_scenario :: "bool \<Rightarrow> script_globals" where
  "submitted_scenario b = form.extend scenario_form (script_globals.fields b)"

text \<open>
  Two states that hold the scenario form and differ in everything else: before and after
  submitting, without and with a value of \<^verbatim>\<open>activity_pm25\<close> left behind, with
  different model files and different output.
\<close>

definition first_visit :: "(bool, real) interp" where
  "first_visit =
     \<lparr>vars = submitted_scenario False, activity_pm25_var = None, disk = temp_missing,
      out = fresh\<rparr>"

definition later_visit :: "(bool, real) interp" where
  "later_visit =
     \<lparr>vars = submitted_scenario True, activity_pm25_var = Some 2, disk = all_present,
      out = \<lparr>loaded = [''model_CO2.pkl''], page = [Subheader results_title]\<rparr>\<rparr>"


section \<open>Properties of the encoder\<close>

lemma activity_pm25_map_simps:
  "activity_pm25_map a =
     (if a = ''Sleeping'' then Some 1 else if a = ''Sitting'' then Some 1
      else if a = ''Watching TV'' then Some 1 else if a = ''Working'' then Some 1
      else if a = ''Having Dinner'' then Some 1 else if a = ''Dressing'' then Some 1
      else if a = ''Cleaning'' then Some 1 else if a = ''Cooking'' then Some 2
      else if a = ''Smoking'' then Some 2 else None)"
  by (simp add: activity_pm25_map_def activity_pm25_items_def)

lemma activity_pm25_map_range:
  "activity_pm25_map a = Some v \<Longrightarrow> v = 1 \<or> v = 2"
  by (simp add: activity_pm25_map_simps split: if_splits)

lemma binary_cases: "binary v t = 0 \<or> binary v t = 1"
  by (simp add: binary_def)

text \<open>
  C2. For each of the nine activities offered by the form, the dictionary
  \<^verbatim>\<open>activity_pm25_map\<close> holds 1, except for Cooking and Smoking, where it holds 2.
\<close>

theorem activity_pm25_map_values:
  "a \<in> set activity_options \<Longrightarrow>
     activity_pm25_map a = Some (if a = ''Cooking'' \<or> a = ''Smoking'' then 2 else 1)"
  by (auto simp: activity_options_def activity_pm25_map_simps)

theorem activity_pm25_map_values_witness:
  "''Cooking'' \<in> set activity_options \<and> activity_pm25_map ''Cooking'' = Some 2 \<and>
   ''Dressing'' \<in> set activity_options \<and> activity_pm25_map ''Dressing'' = Some 1"
proof -
  have c: "''Cooking'' \<in> set activity_options"
    by (simp add: activity_options_def)
  have d: "''Dressing'' \<in> set activity_options"
    by (simp add: activity_options_def)
  show ?thesis
    using c d activity_pm25_map_values [OF c] activity_pm25_map_values [OF d] by simp
qed

text \<open>
  C3. On the scenario form (one resident, Sleeping, window Closed, A/C On, ACH meeting
  the regulation, purifier Off, outdoor temperature above 29, outdoor PM at most 25,
  outdoor humidity at most 70) the encoder succeeds with the temperature row [0,0,0],
  the humidity row [0,0,1], the CO2 row [1,0,1] and the PM2.5 row [0,0,1,0].
\<close>

theorem scenario_feature_vectors:
  "feature_vectors scenario_form = Inr ([[0, 0, 0]], [[0, 0, 1]], [[1, 0, 1]], [[0, 0, 1, 0]])"
  by (simp add: feature_vectors_def activity_pm25_def activity_pm25_map_simps scenario_form_def
      get_features_temp_def get_features_rh_def get_features_co2_def get_features_pm25_def
      binary_def occupancy_def le_sign_def)

text \<open>
  C6. Whatever the form holds, the temperature, humidity and CO2 matrices consist of one
  row of exactly 3 elements, and the PM2.5 matrix of one row of exactly 4 elements.
\<close>

theorem feature_vector_lengths:
  "map length (get_features_temp g) = [3] \<and>
   map length (get_features_rh g) = [3] \<and>
   map length (get_features_co2 g) = [3] \<and>
   map length (get_features_pm25 g act) = [4]"
  by (simp add: get_features_temp_def get_features_rh_def get_features_co2_def
      get_features_pm25_def)

text \<open>
  C4. For every form the CO2 row is the occupancy count, the indicator of an open window
  and the indicator of an air change rate that meets the regulation, in that order; the
  count is 1 for the label of one resident and 2 for the label of more than one.
\<close>

theorem co2_feature_vector:
  "get_features_co2 g =
     [[if occupancy_label g = ''One resident'' then 1 else 2,
       if window g = ''Open'' then 1 else 0,
       if ach g = ''Meet Thai regulation'' then 1 else 0]] \<and>
   (occupancy_label g = ''One resident'' \<longrightarrow> hd (hd (get_features_co2 g)) = 1) \<and>
   (occupancy_label g = ''More than one residents'' \<longrightarrow> hd (hd (get_features_co2 g)) = 2)"
  by (simp add: get_features_co2_def occupancy_def binary_def)

theorem co2_feature_vector_witness:
  "get_features_co2 (scenario_form\<lparr>occupancy_label := ''More than one residents'',
      window := ''Open''\<rparr>) = [[2, 1, 1]] \<and>
   get_features_co2 scenario_form = [[1, 0, 1]]"
  using co2_feature_vector [of "scenario_form\<lparr>occupancy_label := ''More than one residents'',
      window := ''Open''\<rparr>"]
    co2_feature_vector [of scenario_form]
  by (simp add: scenario_form_def)

lemma activity_pm25_Smoking:
  "activity_pm25 (g\<lparr>activity := ''Smoking'', airpurifier := ''On''\<rparr>) = Inr 2"
  by (simp add: activity_pm25_def activity_pm25_map_def activity_pm25_items_def)

text \<open>
  C5. Changing the activity of a form to Smoking and its air purifier to On leaves the
  temperature, humidity and CO2 rows and the first two PM2.5 elements as they were; the
  third PM2.5 element becomes 2 and the fourth becomes 1.
\<close>

theorem smoking_purifier_frame:
  assumes "feature_vectors g = Inr (t, r, c, [[p0, p1, p2, p3]])"
  shows "feature_vectors (g\<lparr>activity := ''Smoking'', airpurifier := ''On''\<rparr>) =
     Inr (t, r, c, [[p0, p1, 2, 1]])"
proof -
  let ?h = "g\<lparr>activity := ''Smoking'', airpurifier := ''On''\<rparr>"
  obtain act where a: "activity_pm25 g = Inr act"
    using assms by (cases "activity_pm25 g") (simp_all add: feature_vectors_def)
  from assms a have t: "t = get_features_temp g" and r: "r = get_features_rh g"
    and c: "c = get_features_co2 g" and p: "[[p0, p1, p2, p3]] = get_features_pm25 g act"
    by (simp_all add: feature_vectors_def)
  have "get_features_temp ?h = t"
    by (simp add: t get_features_temp_def)
  moreover have "get_features_rh ?h = r"
    by (simp add: r get_features_rh_def)
  moreover have "get_features_co2 ?h = c"
    by (simp add: c get_features_co2_def occupancy_def)
  moreover have "get_features_pm25 ?h 2 = [[p0, p1, 2, 1]]"
    using p by (simp add: get_features_pm25_def binary_def)
  ultimately show ?thesis
    by (simp add: feature_vectors_def activity_pm25_Smoking)
qed

theorem smoking_purifier_frame_witness:
  "feature_vectors scenario_form = Inr ([[0, 0, 0]], [[0, 0, 1]], [[1, 0, 1]], [[0, 0, 1, 0]]) \<and>
   feature_vectors (scenario_form\<lparr>activity := ''Smoking'', airpurifier := ''On''\<rparr>) =
     Inr ([[0, 0, 0]], [[0, 0, 1]], [[1, 0, 1]], [[0, 0, 2, 1]])"
proof -
  have h: "feature_vectors scenario_form =
      Inr ([[0, 0, 0]], [[0, 0, 1]], [[1, 0, 1]], [[0, 0, 1, 0]])"
    by (simp add: feature_vectors_def activity_pm25_def activity_pm25_map_simps
        scenario_form_def get_features_temp_def get_features_rh_def get_features_co2_def
        get_features_pm25_def binary_def occupancy_def le_sign_def)
  show ?thesis
    using h smoking_purifier_frame [OF h] by simp
qed

lemma encode_run_eq:
  "encode_run s =
     (case activity_pm25_map (activity (vars s)) of
        None \<Rightarrow> (Inl KeyError, s)
      | Some v \<Rightarrow>
          (Inr (get_features_temp (vars s), get_features_rh (vars s),
                get_features_co2 (vars s), get_features_pm25 (vars s) v),
           s\<lparr>activity_pm25_var := Some v\<rparr>))"
  by (simp add: encode_run_def activity_pm25_assign_def get_features_temp_call_def
      get_features_rh_call_def get_features_co2_call_def get_features_pm25_call_def
      get_features_temp_def get_features_rh_def get_features_co2_def get_features_pm25_def
      split: option.splits)

lemma feature_vectors_form_state:
  "feature_vectors (form_state g) = feature_vectors g"
  by (simp add: feature_vectors_def activity_pm25_def get_features_temp_def
      get_features_rh_def get_features_co2_def get_features_pm25_def occupancy_def
      form_state_def split: option.splits)

text \<open>
  C7. Encoding is deterministic and pure. Two runs of the encoder in states that hold the
  same nine selections give the same result, whatever else the states hold (the submit
  flag, a value of \<^verbatim>\<open>activity_pm25\<close> from before, the model files, the output):
  the result is a function of the nine selections alone. Running the encoder again in
  the state it left gives the same result and the same state. The run leaves the form
  variables, the model files and the output as they were; all it writes is the variable
  \<^verbatim>\<open>activity_pm25\<close>, and the four feature functions write nothing.
\<close>

theorem encoding_pure_deterministic:
  assumes "form_state (vars s) = form_state (vars s')"
  shows "fst (encode_run s) = fst (encode_run s') \<and>
         fst (encode_run s) = feature_vectors (form_state (vars s)) \<and>
         encode_run (snd (encode_run s)) = encode_run s \<and>
         vars (snd (encode_run s)) = vars s \<and>
         disk (snd (encode_run s)) = disk s \<and>
         out (snd (encode_run s)) = out s \<and>
         snd (get_features_temp_call s) = s \<and> snd (get_features_rh_call s) = s \<and>
         snd (get_features_co2_call s) = s \<and> snd (get_features_pm25_call s) = s"
proof -
  have fv: "fst (encode_run x) = feature_vectors (form_state (vars x))"
    for x :: "('l, 'p) interp"
    by (subst feature_vectors_form_state)
      (simp add: encode_run_eq feature_vectors_def activity_pm25_def split: option.splits)
  have "fst (encode_run s) = fst (encode_run s')"
    using assms by (simp add: fv)
  moreover have "encode_run (snd (encode_run s)) = encode_run s"
    by (simp add: encode_run_eq split: option.splits)
  moreover have "vars (snd (encode_run s)) = vars s" "disk (snd (encode_run s)) = disk s"
    "out (snd (encode_run s)) = out s"
    by (simp_all add: encode_run_eq split: option.splits)
  moreover have "snd (get_features_temp_call s) = s" "snd (get_features_rh_call s) = s"
    "snd (get_features_co2_call s) = s" "snd (get_features_pm25_call s) = s"
    by (simp_all add: get_features_temp_call_def get_features_rh_call_def
        get_features_co2_call_def get_features_pm25_call_def split: option.splits)
  ultimately show ?thesis
    using fv [of s] by simp
qed

theorem encoding_pure_deterministic_witness:
  "form_state (vars first_visit) = form_state (vars later_visit) \<and>
   vars first_visit \<noteq> vars later_visit \<and>
   fst (encode_run first_visit) = fst (encode_run later_visit) \<and>
   fst (encode_run later_visit) = Inr ([[0, 0, 0]], [[0, 0, 1]], [[1, 0, 1]], [[0, 0, 1, 0]])"
proof -
  have a: "form_state (vars first_visit) = form_state (vars later_visit)"
    by (simp add: form_state_def first_visit_def later_visit_def submitted_scenario_def
        form.defs)
  have d: "vars first_visit \<noteq> vars later_visit"
    by (simp add: first_visit_def later_visit_def submitted_scenario_def form.defs
        script_globals.defs)
  have v: "feature_vectors (form_state (vars first_visit)) =
      Inr ([[0, 0, 0]], [[0, 0, 1]], [[1, 0, 1]], [[0, 0, 1, 0]])"
    by (simp add: feature_vectors_def activity_pm25_def activity_pm25_map_def
        activity_pm25_items_def form_state_def first_visit_def submitted_scenario_def
        form.defs scenario_form_def get_features_temp_def get_features_rh_def
        get_features_co2_def get_features_pm25_def binary_def occupancy_def le_sign_def)
  from encoding_pure_deterministic [OF a]
  have e: "fst (encode_run first_visit) = fst (encode_run later_visit)"
    and f: "fst (encode_run first_visit) = feature_vectors (form_state (vars first_visit))"
    by blast+
  from e f v have "fst (encode_run later_visit) =
      Inr ([[0, 0, 0]], [[0, 0, 1]], [[1, 0, 1]], [[0, 0, 1, 0]])"
    by simp
  with a d e show ?thesis by blast
qed

lemma valid_scenario: "valid_form (submitted_scenario b)"
  by (simp add: valid_form_def submitted_scenario_def form.defs scenario_form_def
      occupancy_options_def activity_options_def window_options_def ac_options_def
      ach_options_def airpurifier_options_def outdoor_temp_options_def outdoor_pm_options_def
      outdoor_rh_options_def)

text \<open>
  C9. When every field of the form holds one of the options of its select box, encoding
  does not fail: the dictionary lookup of line 55 finds the activity, and the four
  matrices are returned. Encoding has no effect: a run of the script that only encodes
  (the form was not submitted) ends without an error and leaves the state as it was.
\<close>

theorem valid_form_encodes:
  "valid_form g \<Longrightarrow>
     (\<exists>act. activity_pm25 g = Inr act \<and>
        feature_vectors g =
          Inr (get_features_temp g, get_features_rh g, get_features_co2 g,
               get_features_pm25 g act)) \<and>
     (\<not> submitted g \<longrightarrow> app files g w = (Inr (), w))"
  by (auto simp: valid_form_def activity_options_def feature_vectors_def activity_pm25_def
      activity_pm25_map_simps app_def then_do_def lift_def ret_def)

theorem valid_form_encodes_witness:
  "valid_form (submitted_scenario False) \<and>
   (\<exists>act. activity_pm25 (submitted_scenario False) = Inr act \<and>
      feature_vectors (submitted_scenario False) =
        Inr (get_features_temp (submitted_scenario False),
             get_features_rh (submitted_scenario False),
             get_features_co2 (submitted_scenario False),
             get_features_pm25 (submitted_scenario False) act)) \<and>
   \<not> submitted (submitted_scenario False) \<and>
   app temp_missing (submitted_scenario False) fresh = (Inr (), fresh)"
proof -
  have s: "\<not> submitted (submitted_scenario False)"
    by (simp add: submitted_scenario_def form.defs script_globals.defs)
  show ?thesis
    using s valid_scenario [of False]
      valid_form_encodes [OF valid_scenario [of False], of temp_missing fresh]
    by simp
qed

text \<open>
  C10. \<^verbatim>\<open>binary\<close> returns 0 or 1 on every input. So whenever the encoder returns,
  every element of the temperature and humidity rows is 0 or 1; the CO2 row is an
  occupancy count that is 1 or 2 followed by two indicators; and the PM2.5 row is two
  indicators, an activity severity that is 1 or 2, and one more indicator.
\<close>

theorem feature_value_ranges:
  "binary v tv \<in> {0, 1} \<and>
   (feature_vectors g = Inr (t, r, c, p) \<longrightarrow>
      (\<exists>a b d. t = [[a, b, d]] \<and> {a, b, d} \<subseteq> {0, 1}) \<and>
      (\<exists>a b d. r = [[a, b, d]] \<and> {a, b, d} \<subseteq> {0, 1}) \<and>
      (\<exists>n b d. c = [[n, b, d]] \<and> n \<in> {1, 2} \<and> {b, d} \<subseteq> {0, 1}) \<and>
      (\<exists>a b s d. p = [[a, b, s, d]] \<and> s \<in> {1, 2} \<and> {a, b, d} \<subseteq> {0, 1}))"
proof -
  have b: "\<And>(x::string) y. binary x y = 0 \<or> binary x y = 1"
    by (rule binary_cases)
  have "binary v tv \<in> {0, 1}"
    using binary_cases [of v tv] by auto
  moreover have "occupancy g = 1 \<or> occupancy g = 2"
    by (simp add: occupancy_def)
  ultimately show ?thesis
    using b
    by (auto simp: feature_vectors_def activity_pm25_def get_features_temp_def
        get_features_rh_def get_features_co2_def get_features_pm25_def
        split: option.splits dest: activity_pm25_map_range)
qed

theorem feature_value_ranges_witness:
  "feature_vectors (scenario_form\<lparr>occupancy_label := ''More than one residents'',
      activity := ''Cooking''\<rparr>) =
     Inr ([[0, 0, 0]], [[0, 0, 1]], [[2, 0, 1]], [[0, 0, 2, 0]]) \<and>
   binary (3::nat) 3 \<in> {0, 1}"
proof -
  have h: "feature_vectors (scenario_form\<lparr>occupancy_label := ''More than one residents'',
      activity := ''Cooking''\<rparr>) =
     Inr ([[0, 0, 0]], [[0, 0, 1]], [[2, 0, 1]], [[0, 0, 2, 0]])"
    by (simp add: feature_vectors_def activity_pm25_def activity_pm25_map_simps
        scenario_form_def get_features_temp_def get_features_rh_def get_features_co2_def
        get_features_pm25_def binary_def occupancy_def le_sign_def)
  show ?thesis
    using h feature_value_ranges [of "3::nat" 3
        "scenario_form\<lparr>occupancy_label := ''More than one residents'',
           activity := ''Cooking''\<rparr>"
        "[[0, 0, 0]]" "[[0, 0, 1]]" "[[2, 0, 1]]" "[[0, 0, 2, 0]]"]
    by simp
qed

section \<open>Properties of the prediction runner\<close>

text \<open>
  C8. When the artifact loads and its two methods return, \<^verbatim>\<open>predict\<close> returns the
  first label of \<^verbatim>\<open>model.predict\<close> and the second entry of the first row of
  \<^verbatim>\<open>model.predict_proba\<close>, both as the artifact gave them: the label is not computed
  from the probability.
\<close>

theorem predict_returns_artifact_outputs:
  assumes "files path = Inr m"
    and "model_predict m feats = Inr (y # ys)"
    and "model_predict_proba m feats = Inr ((p0 # p1 # ps) # rows)"
  shows "predict files path feats w = (Inr (y, p1), w\<lparr>loaded := loaded w @ [path]\<rparr>)"
  using assms
  by (simp add: predict_def then_do_def joblib_load_def lift_def ret_def subscript_def)

theorem predict_returns_artifact_outputs_witness:
  "all_present ''model_CO2.pkl'' = Inr sure_model \<and>
   model_predict sure_model [[1, 0, 1]] = Inr [True] \<and>
   model_predict_proba sure_model [[1, 0, 1]] = Inr [[4 / 5, 1 / 5]] \<and>
   predict all_present ''model_CO2.pkl'' [[1, 0, 1]] fresh =
     (Inr (True, 1 / 5), fresh\<lparr>loaded := loaded fresh @ [''model_CO2.pkl'']\<rparr>)"
proof -
  have f: "all_present ''model_CO2.pkl'' = Inr sure_model"
    by (simp add: all_present_def)
  have l: "model_predict sure_model [[1, 0, 1]] = Inr [True]"
    by (simp add: sure_model_def)
  have p: "model_predict_proba sure_model [[1, 0, 1]] = Inr [[4 / 5, 1 / 5]]"
    by (simp add: sure_model_def)
  show ?thesis
    using f l p
      predict_returns_artifact_outputs [where files = all_present and path = "''model_CO2.pkl''"
        and m = sure_model and feats = "[[1, 0, 1]]" and y = True and ys = "[]"
        and ?p0.0 = "4 / 5" and ?p1.0 = "1 / 5" and ps = "[]" and rows = "[]" and w = fresh]
    by simp
qed

lemma predict_outcome:
  "\<exists>r. \<forall>w. predict files path feats w = (r, w\<lparr>loaded := loaded w @ [path]\<rparr>)"
proof -
  define r where "r = fst (predict files path feats \<lparr>loaded = [], page = []\<rparr>)"
  have "predict files path feats w = (r, w\<lparr>loaded := loaded w @ [path]\<rparr>)" for w
    unfolding r_def
    by (simp add: predict_def then_do_def joblib_load_def lift_def ret_def
        split: sum.splits)
  then show ?thesis by blast
qed

lemma predict_load_error:
  "files path = Inl e \<Longrightarrow>
     predict files path feats w = (Inl e, w\<lparr>loaded := loaded w @ [path]\<rparr>)"
  by (simp add: predict_def then_do_def joblib_load_def)

lemma world_update_eq:
  "(w\<lparr>loaded := a, page := b\<rparr> = w\<lparr>loaded := a', page := b\<rparr>) \<longleftrightarrow> a = a'"
  by (cases w) simp

text \<open>
  C1, as the code has it. When loading one of the four artifacts fails, the exception
  leaves \<^verbatim>\<open>predict\<close> and ends the run block: the run ends with an error, the
  artifacts after the failing one are never loaded, and the page shows the sub-header
  but no result line.
\<close>

theorem load_error_ends_run:
  assumes "files p = Inl e" and "p \<in> set model_paths"
  shows "\<exists>e' ps. run_predictions files g act w =
           (Inl e', w\<lparr>loaded := loaded w @ ps, page := page w @ [Subheader results_title]\<rparr>) \<and>
         prefix ps (takeWhile (\<lambda>q. q \<noteq> p) model_paths @ [p])"
proof -
  obtain r1 where r1: "\<And>w. predict files ''model_Temp.pkl'' (get_features_temp g) w =
      (r1, w\<lparr>loaded := loaded w @ [''model_Temp.pkl'']\<rparr>)"
    using predict_outcome by blast
  obtain r2 where r2: "\<And>w. predict files ''model_RH.pkl'' (get_features_rh g) w =
      (r2, w\<lparr>loaded := loaded w @ [''model_RH.pkl'']\<rparr>)"
    using predict_outcome by blast
  obtain r3 where r3: "\<And>w. predict files ''model_PM25.pkl'' (get_features_pm25 g act) w =
      (r3, w\<lparr>loaded := loaded w @ [''model_PM25.pkl'']\<rparr>)"
    using predict_outcome by blast
  obtain r4 where r4: "\<And>w. predict files ''model_CO2.pkl'' (get_features_co2 g) w =
      (r4, w\<lparr>loaded := loaded w @ [''model_CO2.pkl'']\<rparr>)"
    using predict_outcome by blast
  have run: "run_predictions files g act w =
      (case r1 of Inl e1 \<Rightarrow>
         (Inl e1, w\<lparr>loaded := loaded w @ [''model_Temp.pkl''],
            page := page w @ [Subheader results_title]\<rparr>)
       | Inr a1 \<Rightarrow>
      (case r2 of Inl e2 \<Rightarrow>
         (Inl e2, w\<lparr>loaded := loaded w @ [''model_Temp.pkl'', ''model_RH.pkl''],
            page := page w @ [Subheader results_title]\<rparr>)
       | Inr a2 \<Rightarrow>
      (case r3 of Inl e3 \<Rightarrow>
         (Inl e3, w\<lparr>loaded := loaded w @ [''model_Temp.pkl'', ''model_RH.pkl'', ''model_PM25.pkl''],
            page := page w @ [Subheader results_title]\<rparr>)
       | Inr a3 \<Rightarrow>
      (case r4 of Inl e4 \<Rightarrow>
         (Inl e4, w\<lparr>loaded := loaded w @ model_paths,
            page := page w @ [Subheader results_title]\<rparr>)
       | Inr a4 \<Rightarrow>
         (Inr (), w\<lparr>loaded := loaded w @ model_paths,
            page := page w @ [Subheader results_title, Result temp_name (fst a1) (snd a1),
              Result rh_name (fst a2) (snd a2), Result pm25_name (fst a3) (snd a3),
              Result co2_name (fst a4) (snd a4)]\<rparr>)))))"
    by (simp add: run_predictions_def then_do_def st_subheader_def show_result_def r1 r2 r3 r4
        model_paths_def split: sum.splits prod.splits)
  from assms(2) consider "p = ''model_Temp.pkl''" | "p = ''model_RH.pkl''"
    | "p = ''model_PM25.pkl''" | "p = ''model_CO2.pkl''"
    by (auto simp: model_paths_def)
  then show ?thesis
  proof cases
    case 1
    with assms(1) r1 [of w] have "r1 = Inl e"
      by (simp add: predict_load_error)
    then show ?thesis
      by (simp add: run 1 model_paths_def world_update_eq)
  next
    case 2
    with assms(1) r2 [of w] have "r2 = Inl e"
      by (simp add: predict_load_error)
    then show ?thesis
      by (cases r1) (simp_all add: run 2 model_paths_def world_update_eq)
  next
    case 3
    with assms(1) r3 [of w] have "r3 = Inl e"
      by (simp add: predict_load_error)
    then show ?thesis
      by (cases r1; cases r2) (simp_all add: run 3 model_paths_def world_update_eq)
  next
    case 4
    with assms(1) r4 [of w] have "r4 = Inl e"
      by (simp add: predict_load_error)
    then show ?thesis
      by (cases r1; cases r2; cases r3) (simp_all add: run 4 model_paths_def world_update_eq)
  qed
qed

theorem load_error_ends_run_witness:
  "temp_missing ''model_Temp.pkl'' = Inl LoadError \<and> ''model_Temp.pkl'' \<in> set model_paths \<and>
   (\<exists>e' ps. run_predictions temp_missing scenario_form 1 fresh =
        (Inl e', fresh\<lparr>loaded := loaded fresh @ ps,
           page := page fresh @ [Subheader results_title]\<rparr>) \<and>
      prefix ps (takeWhile (\<lambda>q. q \<noteq> ''model_Temp.pkl'') model_paths @ [''model_Temp.pkl'']))"
proof -
  have f: "temp_missing ''model_Temp.pkl'' = Inl LoadError"
    by (simp add: temp_missing_def)
  have m: "''model_Temp.pkl'' \<in> set model_paths"
    by (simp add: model_paths_def)
  show ?thesis
    using f m
      load_error_ends_run [where files = temp_missing and p = "''model_Temp.pkl''"
        and e = LoadError and g = scenario_form and act = 1 and w = fresh]
    by simp
qed

text \<open>
  C1, as it is stated, fails: with only the temperature artifact missing, the run ends
  with the load error after the first \<^verbatim>\<open>predict\<close>; the other three artifacts are
  not loaded and none of the four results is shown.
\<close>

theorem load_error_aborts_other_predictions:
  "run_predictions temp_missing scenario_form 1 fresh =
     (Inl LoadError, \<lparr>loaded = [''model_Temp.pkl''], page = [Subheader results_title]\<rparr>)"
  by (simp add: run_predictions_def then_do_def st_subheader_def predict_def joblib_load_def
      temp_missing_def fresh_def)

end
